theory Spec2Isabelle
  imports Main "HOL-Library.Sublist" "HOL-Library.Finite_Map"
begin

section \<open>The syntax tree (bxast.py)\<close>

text \<open>
  Every node of the tree is a Python dataclass. The keyword-only field \<open>position\<close>
  (class \<open>AST\<close>) and, for expressions, the keyword-only field \<open>type_\<close> (class
  \<open>Expression\<close>) come first in each constructor below; the positional fields of the
  dataclass follow in the order of its \<open>__match_args__\<close>.
\<close>

datatype range = Range_ast "int \<times> int" "int \<times> int"

datatype name = Name (name_position: "range option") (name_value: string)

text \<open>
  \<open>BasicBXType\<close> is an enumeration mixed into the plain class \<open>Type\<close>; the four
  dataclasses \<open>PointerType\<close>, \<open>ArrayType\<close>, \<open>StructType\<close> and
  \<open>StandinType\<close> are further subclasses of \<open>Type\<close>. Enumeration members compare by
  identity and dataclasses field by field, which is the equality of this datatype
  (the member \<open>INT\<close> is written \<open>INT_ty\<close>). The dictionary \<open>attr_lookup\<close> of a
  struct is a finite map: like two dictionaries, two finite maps are equal when they
  hold the same items, in whatever order these were inserted.
\<close>

datatype ty =
    VOID | BOOL | INT_ty | NULL
  | POINTER_INT | POINTER_BOOL | ARRAY_INT | ARRAY_BOOL
  | PointerType ty
  | ArrayType ty int
  | StructType "(name \<times> ty) list" "(string, int \<times> ty) fmap option"
  | StandinType name

datatype expression =
    VarExpression (expr_position: "range option") (type_slot: "ty option") name
  | BoolExpression (expr_position: "range option") (type_slot: "ty option") bool
  | IntExpression (expr_position: "range option") (type_slot: "ty option") int
  | NullExpression (expr_position: "range option") (type_slot: "ty option")
  | OpAppExpression (expr_position: "range option") (type_slot: "ty option")
      string "expression list"
  | AllocExpression (expr_position: "range option") (type_slot: "ty option")
      ty expression
  | CallExpression (expr_position: "range option") (type_slot: "ty option")
      name "expression list"
  | PrintExpression (expr_position: "range option") (type_slot: "ty option") expression
  | DereferenceExpression (expr_position: "range option") (type_slot: "ty option")
      expression
  | IndexExpression (expr_position: "range option") (type_slot: "ty option")
      expression expression
  | VarAssignable (expr_position: "range option") (type_slot: "ty option") name
  | DerefAssignable (expr_position: "range option") (type_slot: "ty option") expression
  | ArrayAssignable (expr_position: "range option") (type_slot: "ty option")
      expression expression
  | AttributeAssignable (expr_position: "range option") (type_slot: "ty option")
      expression string
  | AttrPointerAssignable (expr_position: "range option") (type_slot: "ty option")
      expression string
  | RefExpression (expr_position: "range option") (type_slot: "ty option") expression

text \<open>
  The field \<open>lhs\<close> of an assignment is annotated \<open>Assignable\<close>, while the checker
  passes it to \<open>check_local_bound\<close>, whose parameter is annotated \<open>Name\<close> and which
  reads \<open>lhs.value\<close> and \<open>lhs.position\<close>. Both kinds of object are kept apart
  here: \<open>NameTarget\<close> for a \<open>Name\<close>, \<open>AssignableTarget\<close> for one of the
  \<open>Assignable\<close> variants, none of which has an attribute \<open>value\<close>.
\<close>

datatype target = NameTarget name | AssignableTarget expression

datatype statement =
    VarDeclStatement (stmt_position: "range option") name expression ty
  | AssignStatement (stmt_position: "range option") target expression
  | ExprStatement (stmt_position: "range option") expression
  | PrintStatement (stmt_position: "range option") expression
  | BlockStatement (stmt_position: "range option") "statement list"
  | IfStatement (stmt_position: "range option") expression statement "statement option"
  | WhileStatement (stmt_position: "range option") expression statement
  | BreakStatement (stmt_position: "range option")
  | ContinueStatement (stmt_position: "range option")
  | ReturnStatement (stmt_position: "range option") "expression option"

datatype topdecl =
    GlobVarDecl (decl_position: "range option") name expression ty
  | ProcDecl (decl_position: "range option") name "(name \<times> ty) list" "ty option" statement
  | TypedefDecl (decl_position: "range option") name ty

type_synonym block = "statement list"
type_synonym program = "topdecl list"

section \<open>Text of interpolated values\<close>

text \<open>
  The diagnostics are f-strings. An interpolated \<open>int\<close> is written in decimal; an
  interpolated type is written by its \<open>__str__\<close>, and \<open>StandinType\<close>, which
  defines none, by the \<open>repr\<close> that \<open>dataclass\<close> generates. A \<open>string\<close> here is
  a Python \<open>str\<close> whose code points are below 256, one \<open>char\<close> each.
\<close>

function str_nat :: "nat \<Rightarrow> string" where
  "str_nat n =
     (if n < 10 then [''0123456789'' ! n]
      else str_nat (n div 10) @ [''0123456789'' ! (n mod 10)])"
  by pat_completeness auto
termination
  by (relation "measure id") auto

declare str_nat.simps [simp del]

definition str_int :: "int \<Rightarrow> string" where
  "str_int i = (if i < 0 then CHR ''-'' # str_nat (nat (- i)) else str_nat (nat i))"

definition isprintable :: "char \<Rightarrow> bool" where
  "isprintable ch =
     (let n = (of_char ch :: nat) in (32 \<le> n \<and> n < 127) \<or> (161 \<le> n \<and> n \<noteq> 173))"

definition repr_char :: "char \<Rightarrow> char \<Rightarrow> string" where
  "repr_char quote ch =
     (if ch = quote \<or> ch = CHR 0x5C then [CHR 0x5C, ch]
      else if ch = CHR 0x09 then [CHR 0x5C, CHR ''t'']
      else if ch = CHR 0x0A then [CHR 0x5C, CHR ''n'']
      else if ch = CHR 0x0D then [CHR 0x5C, CHR ''r'']
      else if isprintable ch then [ch]
      else [CHR 0x5C, CHR ''x'',
            ''0123456789abcdef'' ! (of_char ch div 16),
            ''0123456789abcdef'' ! (of_char ch mod 16)])"

definition repr_str :: "string \<Rightarrow> string" where
  "repr_str s =
     (let quote = (if CHR 0x27 \<in> set s \<and> CHR 0x22 \<notin> set s then CHR 0x22 else CHR 0x27)
      in quote # concat (map (repr_char quote) s) @ [quote])"

definition repr_pair :: "int \<times> int \<Rightarrow> string" where
  "repr_pair p = ''('' @ str_int (fst p) @ '', '' @ str_int (snd p) @ '')''"

fun repr_position :: "range option \<Rightarrow> string" where
  "repr_position None = ''None''"
| "repr_position (Some (Range_ast s e)) =
     ''Range(start='' @ repr_pair s @ '', end='' @ repr_pair e @ '')''"

fun repr_name :: "name \<Rightarrow> string" where
  "repr_name (Name pos v) =
     ''Name(position='' @ repr_position pos @ '', value='' @ repr_str v @ '')''"

fun str_ty :: "ty \<Rightarrow> string" where
  "str_ty VOID = ''void''"
| "str_ty INT_ty = ''int''"
| "str_ty BOOL = ''bool''"
| "str_ty NULL = ''null_ptr''"
| "str_ty POINTER_INT = ''pointer_int''"
| "str_ty POINTER_BOOL = ''pointer_bool''"
| "str_ty ARRAY_INT = ''array_int''"
| "str_ty ARRAY_BOOL = ''array_bool''"
| "str_ty (PointerType t) = str_ty t @ ''*''"
| "str_ty (ArrayType t n) = str_ty t @ ''['' @ str_int n @ '']''"
| "str_ty (StructType attributes attr_lookup) = ''struct''"
| "str_ty (StandinType n) = ''StandinType(type_name='' @ repr_name n @ '')''"

section \<open>The collaborators of the checker\<close>

subsection \<open>Reporter\<close>

text \<open>
  The classes \<open>Reporter\<close> (module \<open>bxerrors\<close>) and \<open>Scope\<close> (module
  \<open>bxscope\<close>) are imported by the checker; what they do is taken from their
  contracts in the specification.
\<close>

text \<open>
  Modelled from the spec: the state of a \<open>Reporter\<close>, a diagnostics sink that
  accumulates; a diagnostic is a message and an optional position.
\<close>

type_synonym diagnostic = "string \<times> range option"
type_synonym reporter = "diagnostic list"

text \<open>
  Modelled from the spec: the call \<open>reporter(message, position = ...)\<close> of a
  \<open>Reporter\<close>, which records one diagnostic.
\<close>

definition reporter_call :: "reporter \<Rightarrow> string \<Rightarrow> range option \<Rightarrow> reporter" where
  "reporter_call r msg pos = r @ [(msg, pos)]"

text \<open>
  Modelled from the spec: \<open>Reporter.checkpoint()\<close>, which opens a scoped handle; the
  handle keeps the count of diagnostics at entry.
\<close>

definition checkpoint :: "reporter \<Rightarrow> nat" where
  "checkpoint r = length r"

text \<open>
  Modelled from the spec: the truth value of a checkpoint handle, true if and only if
  no diagnostic was recorded within its scope: the count at entry against the count
  when it is asked.
\<close>

definition checkpoint_bool :: "nat \<Rightarrow> reporter \<Rightarrow> bool" where
  "checkpoint_bool entry r = (length r = entry)"

subsection \<open>Scope\<close>

text \<open>
  Modelled from the spec: the state of a \<open>Scope\<close>, a stack of lexical frames mapping
  names to types, given as its innermost frame and the enclosing ones from the inside
  out. A frame is the list of its bindings, the latest first.
\<close>

type_synonym frame = "(string \<times> ty) list"

datatype scope = Scope (innermost: frame) (enclosing: "frame list")

text \<open>
  Modelled from the spec: a fresh \<open>Scope()\<close>; it has one empty frame, the global
  one, into which \<open>pretype\<close> pushes.
\<close>

definition scope_new :: scope where
  "scope_new = Scope [] []"

text \<open>Modelled from the spec: \<open>Scope.push(name, type)\<close> binds in the innermost frame.\<close>

fun scope_push :: "scope \<Rightarrow> string \<Rightarrow> ty \<Rightarrow> scope" where
  "scope_push (Scope f fs) n t = Scope ((n, t) # f) fs"

text \<open>Modelled from the spec: \<open>Scope.islocal(name)\<close> tests only the innermost frame.\<close>

fun scope_islocal :: "scope \<Rightarrow> string \<Rightarrow> bool" where
  "scope_islocal (Scope f fs) n = (map_of f n \<noteq> None)"

text \<open>
  Modelled from the spec: the lookup \<open>scope[name]\<close> searches the whole chain from
  the innermost frame outward; \<open>None\<close> stands for a name bound in no frame.
\<close>

fun frames_getitem :: "frame list \<Rightarrow> string \<Rightarrow> ty option" where
  "frames_getitem [] n = None"
| "frames_getitem (f # fs) n =
     (case map_of f n of Some t \<Rightarrow> Some t | None \<Rightarrow> frames_getitem fs n)"

fun scope_getitem :: "scope \<Rightarrow> string \<Rightarrow> ty option" where
  "scope_getitem (Scope f fs) n = frames_getitem (f # fs) n"

text \<open>
  Modelled from the spec: the membership test \<open>name in scope\<close> searches the same
  chain.
\<close>

definition scope_contains :: "scope \<Rightarrow> string \<Rightarrow> bool" where
  "scope_contains s n = (scope_getitem s n \<noteq> None)"

text \<open>Modelled from the spec: \<open>Scope.open()\<close> pushes an empty frame.\<close>

fun scope_open :: "scope \<Rightarrow> scope" where
  "scope_open (Scope f fs) = Scope [] (f # fs)"

text \<open>
  Modelled from the spec: \<open>Scope.close()\<close> pops the innermost frame. Closing the
  only frame is not described and leaves the scope as it is; the checker closes only
  frames that it has opened. The scoped helper \<open>in_subscope()\<close> is \<open>scope_open\<close>
  on entry and \<open>scope_close\<close> on exit.
\<close>

fun scope_close :: "scope \<Rightarrow> scope" where
  "scope_close (Scope f []) = Scope f []"
| "scope_close (Scope f (g # gs)) = Scope g gs"

section \<open>The checker (bxtychecker.py)\<close>

text \<open>
  An exception that the code raises is a value: the assertion of a \<open>case _\<close> branch,
  the read of an attribute that the object does not have, the lookup of a key that a
  dictionary does not hold. No handler catches them, so an exception raised anywhere
  is the outcome of the whole call, and the \<open>finally\<close> clauses that it passes on
  its way out are not visible in that outcome.
\<close>

datatype error = AssertionError | AttributeError | KeyError

type_synonym sigtype = "ty list \<times> ty"
type_synonym procsigmap = "(string \<times> sigtype) list"

subsection \<open>PreTyper\<close>

fun pretype_loop ::
  "scope \<Rightarrow> procsigmap \<Rightarrow> reporter \<Rightarrow> program \<Rightarrow> error + (scope \<times> procsigmap \<times> reporter)"
where
  "pretype_loop scope procs r [] = Inr (scope, procs, r)"
| "pretype_loop scope procs r (ProcDecl pos name arguments rettype body # prgm) =
     (if map_of procs (name_value name) \<noteq> None
      then pretype_loop scope procs
             (reporter_call r (''duplicated procedure name: '' @ name_value name)
                (name_position name)) prgm
      else pretype_loop scope
             (procs @ [(name_value name,
                        (map snd arguments,
                         (case rettype of None \<Rightarrow> VOID | Some t \<Rightarrow> t)))]) r prgm)"
| "pretype_loop scope procs r (GlobVarDecl pos name init type_v # prgm) =
     (if scope_contains scope (name_value name)
      then pretype_loop scope procs
             (reporter_call r (''duplicated global variable name: '' @ name_value name)
                (name_position name)) prgm
      else pretype_loop (scope_push scope (name_value name) type_v) procs r prgm)"
| "pretype_loop scope procs r (TypedefDecl pos alias original_type # prgm) =
     Inl AssertionError"

definition pretype ::
  "reporter \<Rightarrow> program \<Rightarrow> error + (scope \<times> procsigmap \<times> reporter)"
where
  "pretype r prgm =
     (case pretype_loop scope_new [] r prgm of
        Inl e \<Rightarrow> Inl e
      | Inr (scope, procs, r1) \<Rightarrow>
          Inr (scope, procs,
               (if map_of procs ''main'' = None
                then reporter_call r1 ''this program is missing a main subroutine'' None
                else if map_of procs ''main'' \<noteq> Some ([], VOID)
                then reporter_call r1
                  ([CHR 0x22] @ ''main'' @ [CHR 0x22] @
                   '' should not take any argument and should not return any value'') None
                else r1)))"

subsection \<open>TypeChecker\<close>

definition SIGS :: "(string \<times> ty list \<times> ty) list" where
  "SIGS =
    [(''opposite'',                  ([INT_ty], INT_ty)),
     (''bitwise-negation'',          ([BOOL], BOOL)),
     (''boolean-not'',               ([BOOL], BOOL)),
     (''addition'',                  ([INT_ty, INT_ty], INT_ty)),
     (''subtraction'',               ([INT_ty, INT_ty], INT_ty)),
     (''multiplication'',            ([INT_ty, INT_ty], INT_ty)),
     (''division'',                  ([INT_ty, INT_ty], INT_ty)),
     (''modulus'',                   ([INT_ty, INT_ty], INT_ty)),
     (''logical-right-shift'',       ([INT_ty, INT_ty], INT_ty)),
     (''logical-left-shift'',        ([INT_ty, INT_ty], INT_ty)),
     (''bitwise-and'',               ([INT_ty, INT_ty], INT_ty)),
     (''bitwise-or'',                ([INT_ty, INT_ty], INT_ty)),
     (''bitwise-xor'',               ([INT_ty, INT_ty], INT_ty)),
     (''boolean-and'',               ([BOOL, BOOL], BOOL)),
     (''boolean-or'',                ([BOOL, BOOL], BOOL)),
     (''cmp-equal'',                 ([INT_ty, INT_ty], BOOL)),
     (''cmp-not-equal'',             ([INT_ty, INT_ty], BOOL)),
     (''cmp-lower-than'',            ([INT_ty, INT_ty], BOOL)),
     (''cmp-lower-or-equal-than'',   ([INT_ty, INT_ty], BOOL)),
     (''cmp-greater-than'',          ([INT_ty, INT_ty], BOOL)),
     (''cmp-greater-or-equal-than'', ([INT_ty, INT_ty], BOOL))]"

text \<open>The fields of a \<open>TypeChecker\<close> instance, \<open>self\<close> in the methods.\<close>

record checker =
  scope :: scope
  procs :: procsigmap
  loops :: int
  proc :: "topdecl option"
  reporter :: reporter

definition TypeChecker :: "scope \<Rightarrow> procsigmap \<Rightarrow> reporter \<Rightarrow> checker" where
  "TypeChecker s ps r = \<lparr>scope = s, procs = ps, loops = 0, proc = None, reporter = r\<rparr>"

definition report :: "checker \<Rightarrow> string \<Rightarrow> range option \<Rightarrow> checker" where
  "report c msg pos = c\<lparr>reporter := reporter_call (reporter c) msg pos\<rparr>"

definition check_local_free :: "checker \<Rightarrow> name \<Rightarrow> bool \<times> checker" where
  "check_local_free c n =
     (if scope_islocal (scope c) (name_value n)
      then (False, report c (''duplicated variable declaration for '' @ name_value n) None)
      else (True, c))"

definition check_local_bound :: "checker \<Rightarrow> name \<Rightarrow> ty option \<times> checker" where
  "check_local_bound c n =
     (if \<not> scope_contains (scope c) (name_value n)
      then (None, report c (''missing variable declaration for '' @ name_value n)
                    (name_position n))
      else (scope_getitem (scope c) (name_value n), c))"

definition check_integer_constant_range :: "checker \<Rightarrow> int \<Rightarrow> bool \<times> checker" where
  "check_integer_constant_range c v =
     (if \<not> (- (2 ^ 63) \<le> v \<and> v < 2 ^ 63)
      then (False, report c (''integer literal out of range: '' @ str_int v) None)
      else (True, c))"

text \<open>
  The statements that close \<open>for_expression\<close> after its \<open>match\<close>: the comparison
  of the inferred type with the expected one. The write to the slot is the rebuilt
  node in each equation of \<open>for_expression\<close>.
\<close>

definition check_etype ::
  "checker \<Rightarrow> range option \<Rightarrow> ty option \<Rightarrow> ty option \<Rightarrow> checker"
where
  "check_etype c pos type_v etype =
     (case type_v of
        None \<Rightarrow> c
      | Some t \<Rightarrow>
          (case etype of
             None \<Rightarrow> c
           | Some et \<Rightarrow>
               if t \<noteq> et
               then report c (''invalid type: get '' @ str_ty t @ '', expected '' @ str_ty et)
                      pos
               else c))"

text \<open>
  \<open>for_expression\<close> mutates the node it is given; here it returns the node with its
  slot written, together with the checker. \<open>for_opargs\<close> is the loop over
  \<open>zip(opsig[0], arguments)\<close> and \<open>for_callargs\<close> the loop over
  \<open>enumerate(arguments)\<close>, with the index \<open>i\<close> as an argument.

  The class \<open>Type\<close> has no attribute \<open>INT\<close>, \<open>POINTER_INT\<close> and so on
  (they are members of its subclass \<open>BasicBXType\<close>), so the branches that read
  \<open>Type.INT\<close> or \<open>Type.POINTER_INT\<close> raise \<open>AttributeError\<close> there: the
  allocation before its size is checked, the dereference after its operand is checked,
  the indexing after its base is checked. The \<open>case _\<close> branch prints the node and
  fails its assertion.
\<close>

fun for_expression ::
      "checker \<Rightarrow> expression \<Rightarrow> ty option \<Rightarrow> error + (expression \<times> checker)"
  and for_opargs ::
      "checker \<Rightarrow> ty list \<Rightarrow> expression list \<Rightarrow> error + (expression list \<times> checker)"
  and for_callargs ::
      "checker \<Rightarrow> ty list \<Rightarrow> nat \<Rightarrow> expression list \<Rightarrow> error + (expression list \<times> checker)"
where
  "for_expression c (VarExpression pos slot name) etype =
     (case check_local_bound c name of
        (bound, c1) \<Rightarrow>
          (let type_v = (case bound of
                           None \<Rightarrow> None
                         | Some _ \<Rightarrow> scope_getitem (scope c1) (name_value name))
           in Inr (VarExpression pos type_v name, check_etype c1 pos type_v etype)))"
| "for_expression c (BoolExpression pos slot v) etype =
     Inr (BoolExpression pos (Some BOOL) v, check_etype c pos (Some BOOL) etype)"
| "for_expression c (IntExpression pos slot v) etype =
     (case check_integer_constant_range c v of
        (_, c1) \<Rightarrow>
          Inr (IntExpression pos (Some INT_ty) v, check_etype c1 pos (Some INT_ty) etype))"
| "for_expression c (OpAppExpression pos slot opname arguments) etype =
     (case map_of SIGS opname of
        None \<Rightarrow> Inl KeyError
      | Some opsig \<Rightarrow>
          (case for_opargs c (fst opsig) arguments of
             Inl e \<Rightarrow> Inl e
           | Inr (arguments', c1) \<Rightarrow>
               Inr (OpAppExpression pos (Some (snd opsig)) opname arguments',
                    check_etype c1 pos (Some (snd opsig)) etype)))"
| "for_expression c (CallExpression pos slot name arguments) etype =
     (case (case map_of (procs c) (name_value name) of
              None \<Rightarrow>
                ([], None,
                 report c (''unknown procedure: '' @ name_value name) (name_position name))
            | Some (atypes, retty) \<Rightarrow>
                (atypes, Some retty,
                 if length atypes \<noteq> length arguments
                 then report c
                        (''invalid number of arguments: expected '' @
                         str_int (int (length atypes)) @ '', got '' @
                         str_int (int (length arguments))) pos
                 else c)) of
        (atypes, retty, c1) \<Rightarrow>
          (case for_callargs c1 atypes 0 arguments of
             Inl e \<Rightarrow> Inl e
           | Inr (arguments', c2) \<Rightarrow>
               Inr (CallExpression pos retty name arguments',
                    check_etype c2 pos retty etype)))"
| "for_expression c (PrintExpression pos slot e) etype =
     (case for_expression c e None of
        Inl err \<Rightarrow> Inl err
      | Inr (e', c1) \<Rightarrow>
          (let c2 = (case type_slot e' of
                       None \<Rightarrow> c1
                     | Some t \<Rightarrow>
                         if t \<notin> set [INT_ty, BOOL]
                         then report c1
                                (''can only print integers and booleans, not '' @ str_ty t)
                                (expr_position e')
                         else c1)
           in Inr (PrintExpression pos (Some VOID) e',
                   check_etype c2 pos (Some VOID) etype)))"
| "for_expression c (AllocExpression pos slot element_type size_expr) etype =
     Inl AttributeError"
| "for_expression c (DereferenceExpression pos slot pointer_expr) etype =
     (case for_expression c pointer_expr None of
        Inl err \<Rightarrow> Inl err
      | Inr (pointer_expr', c1) \<Rightarrow> Inl AttributeError)"
| "for_expression c (IndexExpression pos slot array_expr index_expr) etype =
     (case for_expression c array_expr None of
        Inl err \<Rightarrow> Inl err
      | Inr (array_expr', c1) \<Rightarrow> Inl AttributeError)"
| "for_expression c (NullExpression pos slot) etype = Inl AssertionError"
| "for_expression c (VarAssignable pos slot name) etype = Inl AssertionError"
| "for_expression c (DerefAssignable pos slot argument) etype = Inl AssertionError"
| "for_expression c (ArrayAssignable pos slot argument index) etype = Inl AssertionError"
| "for_expression c (AttributeAssignable pos slot argument attribute) etype =
     Inl AssertionError"
| "for_expression c (AttrPointerAssignable pos slot argument attribute) etype =
     Inl AssertionError"
| "for_expression c (RefExpression pos slot argument) etype = Inl AssertionError"
| "for_opargs c [] arguments = Inr (arguments, c)"
| "for_opargs c (atype # atypes) [] = Inr ([], c)"
| "for_opargs c (atype # atypes) (argument # arguments) =
     (case for_expression c argument (Some atype) of
        Inl e \<Rightarrow> Inl e
      | Inr (argument', c1) \<Rightarrow>
          (case for_opargs c1 atypes arguments of
             Inl e \<Rightarrow> Inl e
           | Inr (arguments', c2) \<Rightarrow> Inr (argument' # arguments', c2)))"
| "for_callargs c atypes i [] = Inr ([], c)"
| "for_callargs c atypes i (a # arguments) =
     (case for_expression c a (if i < length atypes then Some (atypes ! i) else None) of
        Inl e \<Rightarrow> Inl e
      | Inr (a', c1) \<Rightarrow>
          (case for_callargs c1 atypes (Suc i) arguments of
             Inl e \<Rightarrow> Inl e
           | Inr (arguments', c2) \<Rightarrow> Inr (a' # arguments', c2)))"

text \<open>
  \<open>self.proc\<close> is \<open>None\<close> or the \<open>ProcDecl\<close> that \<open>in_proc\<close> stored; reading
  \<open>rettype\<close> from anything else raises \<open>AttributeError\<close>.
\<close>

fun proc_rettype :: "topdecl option \<Rightarrow> error + ty option" where
  "proc_rettype (Some (ProcDecl pos name arguments rettype body)) = Inr rettype"
| "proc_rettype _ = Inl AttributeError"

text \<open>
  \<open>for_statement\<close> returns the statement with the slots of its expressions written.
  \<open>for_stmts\<close> is the loop of \<open>for_block\<close>, which runs inside
  \<open>scope.in_subscope()\<close>; \<open>in_loop\<close> surrounds the body of a \<open>while\<close>.

  A \<open>return\<close> without a value reports when the procedure has a return type and then
  reads \<open>self.proc.retty\<close>, an attribute that \<open>ProcDecl\<close> does not have (its field
  is \<open>rettype\<close>): every such statement raises \<open>AttributeError\<close>. A \<open>return\<close>
  with a value is compared with nothing: its expression is not visited.
\<close>

fun for_statement :: "checker \<Rightarrow> statement \<Rightarrow> error + (statement \<times> checker)"
  and for_block :: "checker \<Rightarrow> block \<Rightarrow> error + (block \<times> checker)"
  and for_stmts :: "checker \<Rightarrow> statement list \<Rightarrow> error + (statement list \<times> checker)"
where
  "for_statement c (VarDeclStatement pos name init type_v) =
     (case check_local_free c name of
        (free, c1) \<Rightarrow>
          (let c2 = (if free
                     then c1\<lparr>scope := scope_push (scope c1) (name_value name) type_v\<rparr>
                     else c1)
           in case for_expression c2 init (Some type_v) of
                Inl e \<Rightarrow> Inl e
              | Inr (init', c3) \<Rightarrow> Inr (VarDeclStatement pos name init' type_v, c3)))"
| "for_statement c (AssignStatement pos (NameTarget lhs) rhs) =
     (case check_local_bound c lhs of
        (lhstype, c1) \<Rightarrow>
          (case for_expression c1 rhs lhstype of
             Inl e \<Rightarrow> Inl e
           | Inr (rhs', c2) \<Rightarrow> Inr (AssignStatement pos (NameTarget lhs) rhs', c2)))"
| "for_statement c (AssignStatement pos (AssignableTarget lhs) rhs) = Inl AttributeError"
| "for_statement c (ExprStatement pos expression) =
     (case for_expression c expression None of
        Inl e \<Rightarrow> Inl e
      | Inr (expression', c1) \<Rightarrow> Inr (ExprStatement pos expression', c1))"
| "for_statement c (BlockStatement pos block) =
     (case for_block c block of
        Inl e \<Rightarrow> Inl e
      | Inr (block', c1) \<Rightarrow> Inr (BlockStatement pos block', c1))"
| "for_statement c (IfStatement pos condition iftrue iffalse) =
     (case for_expression c condition (Some BOOL) of
        Inl e \<Rightarrow> Inl e
      | Inr (condition', c1) \<Rightarrow>
          (case for_statement c1 iftrue of
             Inl e \<Rightarrow> Inl e
           | Inr (iftrue', c2) \<Rightarrow>
               (case iffalse of
                  None \<Rightarrow> Inr (IfStatement pos condition' iftrue' None, c2)
                | Some s \<Rightarrow>
                    (case for_statement c2 s of
                       Inl e \<Rightarrow> Inl e
                     | Inr (s', c3) \<Rightarrow>
                         Inr (IfStatement pos condition' iftrue' (Some s'), c3)))))"
| "for_statement c (WhileStatement pos condition body) =
     (case for_expression c condition (Some BOOL) of
        Inl e \<Rightarrow> Inl e
      | Inr (condition', c1) \<Rightarrow>
          (case for_statement (c1\<lparr>loops := loops c1 + 1\<rparr>) body of
             Inl e \<Rightarrow> Inl e
           | Inr (body', c2) \<Rightarrow>
               Inr (WhileStatement pos condition' body', c2\<lparr>loops := loops c2 - 1\<rparr>)))"
| "for_statement c (BreakStatement pos) =
     Inr (BreakStatement pos,
          if loops c = 0
          then report c ''break/continue statement outside of a loop'' pos
          else c)"
| "for_statement c (ContinueStatement pos) =
     Inr (ContinueStatement pos,
          if loops c = 0
          then report c ''break/continue statement outside of a loop'' pos
          else c)"
| "for_statement c (PrintStatement pos init) =
     (case for_expression c init (Some INT_ty) of
        Inl e \<Rightarrow> Inl e
      | Inr (init', c1) \<Rightarrow> Inr (PrintStatement pos init', c1))"
| "for_statement c (ReturnStatement pos e) =
     (case e of
        None \<Rightarrow>
          (case proc_rettype (proc c) of
             Inl err \<Rightarrow> Inl err
           | Inr rettype \<Rightarrow>
               (let c1 = (if rettype \<noteq> None
                          then report c ''value-less return statement in a function'' pos
                          else c)
                in Inl AttributeError))
      | Some v \<Rightarrow>
          (case proc_rettype (proc c) of
             Inl err \<Rightarrow> Inl err
           | Inr rettype \<Rightarrow>
               Inr (ReturnStatement pos (Some v),
                    if rettype = None
                    then report c ''return statement in a subroutine'' pos
                    else c)))"
| "for_block c block =
     (case for_stmts (c\<lparr>scope := scope_open (scope c)\<rparr>) block of
        Inl e \<Rightarrow> Inl e
      | Inr (block', c1) \<Rightarrow> Inr (block', c1\<lparr>scope := scope_close (scope c1)\<rparr>))"
| "for_stmts c [] = Inr ([], c)"
| "for_stmts c (stmt # block) =
     (case for_statement c stmt of
        Inl e \<Rightarrow> Inl e
      | Inr (stmt', c1) \<Rightarrow>
          (case for_stmts c1 block of
             Inl e \<Rightarrow> Inl e
           | Inr (block', c2) \<Rightarrow> Inr (stmt' # block', c2)))"

fun check_constant :: "expression \<Rightarrow> bool" where
  "check_constant (IntExpression pos slot v) = True"
| "check_constant _ = False"

text \<open>
  \<open>has_return\<close> is also called with the absent \<open>else\<close> branch of an \<open>if\<close>,
  the value \<open>None\<close>, which only its \<open>case _\<close> matches.
\<close>

fun has_return :: "statement \<Rightarrow> bool" where
  "has_return (ReturnStatement pos e) = True"
| "has_return (IfStatement pos condition iftrue iffalse) =
     (has_return iftrue \<and> (case iffalse of None \<Rightarrow> False | Some s \<Rightarrow> has_return s))"
| "has_return (BlockStatement pos block) = list_ex has_return block"
| "has_return _ = False"

text \<open>The loop of \<open>for_topdecl\<close> over the parameters of a procedure.\<close>

fun bind_arguments :: "checker \<Rightarrow> (name \<times> ty) list \<Rightarrow> checker" where
  "bind_arguments c [] = c"
| "bind_arguments c ((vname, vtype) # arguments) =
     (case check_local_free c vname of
        (free, c1) \<Rightarrow>
          bind_arguments
            (if free then c1\<lparr>scope := scope_push (scope c1) (name_value vname) vtype\<rparr>
             else c1)
            arguments)"

text \<open>
  \<open>in_proc\<close> asserts that no procedure is being checked, stores the declaration and
  opens a frame; on the way out it clears the procedure and closes the frame. The
  \<open>match\<close> of \<open>for_topdecl\<close> has no branch for a \<open>TypedefDecl\<close> and does
  nothing with it.
\<close>

fun for_topdecl :: "checker \<Rightarrow> topdecl \<Rightarrow> error + (topdecl \<times> checker)" where
  "for_topdecl c (ProcDecl pos name arguments retty body) =
     (if proc c \<noteq> None then Inl AssertionError
      else
        (let c1 = c\<lparr>proc := Some (ProcDecl pos name arguments retty body),
                     scope := scope_open (scope c)\<rparr>;
             c2 = bind_arguments c1 arguments
         in case for_statement c2 body of
              Inl e \<Rightarrow> Inl e
            | Inr (body', c3) \<Rightarrow>
                (let c4 = (if retty \<noteq> None \<and> \<not> has_return body'
                           then report c3 ''this function is missing a return statement'' pos
                           else c3)
                 in Inr (ProcDecl pos name arguments retty body',
                         c4\<lparr>proc := None, scope := scope_close (scope c4)\<rparr>))))"
| "for_topdecl c (GlobVarDecl pos name init type_v) =
     (case for_expression c init (Some type_v) of
        Inl e \<Rightarrow> Inl e
      | Inr (init', c1) \<Rightarrow>
          Inr (GlobVarDecl pos name init' type_v,
               if \<not> check_constant init'
               then report c1 ''this expression is not a literal'' (expr_position init')
               else c1))"
| "for_topdecl c (TypedefDecl pos alias original_type) =
     Inr (TypedefDecl pos alias original_type, c)"

fun for_program :: "checker \<Rightarrow> program \<Rightarrow> error + (program \<times> checker)" where
  "for_program c [] = Inr ([], c)"
| "for_program c (decl # prgm) =
     (case for_topdecl c decl of
        Inl e \<Rightarrow> Inl e
      | Inr (decl', c1) \<Rightarrow>
          (case for_program c1 prgm of
             Inl e \<Rightarrow> Inl e
           | Inr (prgm', c2) \<Rightarrow> Inr (decl' # prgm', c2)))"

definition TypeChecker_check :: "checker \<Rightarrow> program \<Rightarrow> error + (program \<times> checker)" where
  "TypeChecker_check c prgm = for_program c prgm"

text \<open>
  The module-level \<open>check\<close>. Its result is the truth value of the checkpoint, asked
  after both passes; the program with its slots written and the reporter are returned
  with it, since the code mutates both.
\<close>

definition check :: "program \<Rightarrow> reporter \<Rightarrow> error + (bool \<times> program \<times> reporter)" where
  "check prgm r =
     (let cp = checkpoint r
      in case pretype r prgm of
           Inl e \<Rightarrow> Inl e
         | Inr (scope_v, procs_v, r1) \<Rightarrow>
             (case TypeChecker_check (TypeChecker scope_v procs_v r1) prgm of
                Inl e \<Rightarrow> Inl e
              | Inr (prgm', c) \<Rightarrow>
                  Inr (checkpoint_bool cp (reporter c), prgm', reporter c)))"

section \<open>Notions used in the statements\<close>

text \<open>
  \<open>extends c c'\<close>: the checker \<open>c'\<close> is \<open>c\<close> with further diagnostics recorded
  and nothing else changed.
\<close>

definition extends :: "checker \<Rightarrow> checker \<Rightarrow> bool" where
  "extends c c' = (\<exists>ds. c' = c\<lparr>reporter := reporter c @ ds\<rparr>)"

text \<open>
  \<open>for_each c pairs\<close> checks the expressions of \<open>pairs\<close> from left to right, each
  against the expectation paired with it (\<open>None\<close>: unconstrained), and stops at the
  first exception.
\<close>

fun for_each ::
  "checker \<Rightarrow> (ty option \<times> expression) list \<Rightarrow> error + (expression list \<times> checker)"
where
  "for_each c [] = Inr ([], c)"
| "for_each c ((et, a) # rest) =
     (case for_expression c a et of
        Inl e \<Rightarrow> Inl e
      | Inr (a', c1) \<Rightarrow>
          (case for_each c1 rest of
             Inl e \<Rightarrow> Inl e
           | Inr (rest', c2) \<Rightarrow> Inr (a' # rest', c2)))"

text \<open>The definitions that the evaluation of a concrete input unfolds.\<close>

lemmas eval_defs = check_def pretype_def TypeChecker_check_def TypeChecker_def scope_new_def
  checkpoint_def checkpoint_bool_def reporter_call_def report_def check_local_free_def
  check_local_bound_def check_integer_constant_range_def check_etype_def scope_contains_def
  SIGS_def Let_def

section \<open>What a check changes in the checker\<close>

lemma extends_refl: "extends c c"
  by (auto simp: extends_def intro: exI [of _ "[]"])

lemma extends_trans: "extends a b \<Longrightarrow> extends b c \<Longrightarrow> extends a c"
  by (auto simp: extends_def)

lemma extends_report: "extends c (report c msg pos)"
  by (auto simp: extends_def report_def reporter_call_def)

lemma extends_report': "extends c c' \<Longrightarrow> extends c (report c' msg pos)"
  by (rule extends_trans [OF _ extends_report])

lemma extends_check_etype: "extends c c' \<Longrightarrow> extends c (check_etype c' pos t et)"
  by (auto simp: check_etype_def extends_refl extends_report' split: option.splits)

lemma extends_check_local_bound: "check_local_bound c n = (r, c') \<Longrightarrow> extends c c'"
  by (auto simp: check_local_bound_def extends_refl extends_report split: if_splits)

lemma extends_check_integer_constant_range:
  "check_integer_constant_range c v = (r, c') \<Longrightarrow> extends c c'"
  by (auto simp: check_integer_constant_range_def extends_refl extends_report
      split: if_splits)

lemmas extends_intros = extends_refl extends_report' extends_check_etype

lemma extends_for_expression:
  "for_expression c e et = Inr (e', c') \<Longrightarrow> extends c c'"
  "for_opargs c ats as = Inr (as', c') \<Longrightarrow> extends c c'"
  "for_callargs c ats i as = Inr (as', c') \<Longrightarrow> extends c c'"
proof (induction c e et and c ats as and c ats i as
    arbitrary: e' c' and as' c' and as' c'
    rule: for_expression_for_opargs_for_callargs.induct)
  case (1 c pos slot name etype)
  then show ?case
    by (auto simp: Let_def split: prod.splits dest!: extends_check_local_bound
        intro: extends_intros)
next
  case (2 c pos slot v etype)
  then show ?case by (auto intro: extends_intros)
next
  case (3 c pos slot v etype)
  then show ?case
    by (auto split: prod.splits dest!: extends_check_integer_constant_range
        intro: extends_intros)
next
  case (4 c pos slot opname arguments etype)
  then show ?case
    by (auto split: option.splits sum.splits prod.splits intro: extends_intros)
next
  case (5 c pos slot name arguments etype)
  then show ?case
    by (auto split: option.splits sum.splits prod.splits if_splits
        intro!: extends_check_etype intro: extends_trans [OF extends_report])
next
  case (6 c pos slot e etype)
  then show ?case
    by (auto split: option.splits sum.splits prod.splits if_splits simp: Let_def
        intro!: extends_intros)
qed (auto split: sum.splits prod.splits intro: extends_refl extends_trans)

lemma has_return_for_statement:
  "for_statement c s = Inr (s', c') \<Longrightarrow> has_return s' = has_return s"
  "for_block c b = Inr (b', c') \<Longrightarrow> list_ex has_return b' = list_ex has_return b"
  "for_stmts c b = Inr (b', c') \<Longrightarrow> list_ex has_return b' = list_ex has_return b"
proof (induction c s and c b and c b arbitrary: s' c' and b' c' and b' c'
    rule: for_statement_for_block_for_stmts.induct)
  case (6 c pos condition iftrue iffalse)
  then show ?case
    by (fastforce split: sum.splits prod.splits option.splits)
qed (auto simp: Let_def split: sum.splits prod.splits option.splits if_splits)

lemma prefix_extends: "extends c c' \<Longrightarrow> prefix (reporter c) (reporter c')"
  by (auto simp: extends_def)

lemma prefix_report: "prefix r (reporter c) \<Longrightarrow> prefix r (reporter (report c msg pos))"
  by (auto simp: report_def reporter_call_def prefix_def)

lemma prefix_check_local_free:
  "check_local_free c n = (b, c') \<Longrightarrow> prefix (reporter c) (reporter c')"
  by (auto simp: check_local_free_def prefix_report split: if_splits)

lemma prefix_for_expression:
  "for_expression c e et = Inr (e', c') \<Longrightarrow> prefix r (reporter c) \<Longrightarrow> prefix r (reporter c')"
  using extends_for_expression(1) prefix_extends prefix_order.trans by blast

lemma prefix_for_statement:
  "for_statement c s = Inr (s', c') \<Longrightarrow> prefix (reporter c) (reporter c')"
  "for_block c b = Inr (b', c') \<Longrightarrow> prefix (reporter c) (reporter c')"
  "for_stmts c b = Inr (b', c') \<Longrightarrow> prefix (reporter c) (reporter c')"
proof (induction c s and c b and c b arbitrary: s' c' and b' c' and b' c'
    rule: for_statement_for_block_for_stmts.induct)
  case (1 c pos name init type_v)
  then show ?case
    by (auto simp: Let_def check_local_free_def split: sum.splits prod.splits if_splits
        intro: prefix_for_expression prefix_report)
next
  case (2 c pos lhs rhs)
  then show ?case
    by (auto simp: Let_def split: sum.splits prod.splits if_splits
        dest!: extends_check_local_bound prefix_extends
        intro: prefix_for_expression)
next
  case (6 c pos condition iftrue iffalse)
  then show ?case
    by (fastforce split: sum.splits prod.splits option.splits
        dest: prefix_for_expression [OF _ prefix_order.refl] prefix_order.trans)
next
  case (7 c pos condition body)
  then show ?case
    by (fastforce split: sum.splits prod.splits option.splits
        dest: prefix_for_expression [OF _ prefix_order.refl] prefix_order.trans)
next
  case (11 c pos e)
  then show ?case
    by (auto simp: Let_def split: sum.splits prod.splits option.splits if_splits
        intro: prefix_report)
next
  case (12 c block)
  then show ?case
    by (fastforce split: sum.splits prod.splits)
next
  case (14 c stmt block)
  then show ?case
    by (fastforce split: sum.splits prod.splits dest: prefix_order.trans)
qed (auto simp: Let_def split: sum.splits prod.splits option.splits if_splits
      intro: prefix_for_expression prefix_report)

lemma prefix_bind_arguments':
  "prefix r (reporter c) \<Longrightarrow> prefix r (reporter (bind_arguments c args))"
proof (induction args arbitrary: c)
  case Nil
  then show ?case by simp
next
  case (Cons a args)
  obtain vname vtype where a: "a = (vname, vtype)" by (cases a)
  show ?case
    unfolding a using Cons.prems
    by (auto simp: check_local_free_def prefix_report intro!: Cons.IH)
qed

lemma prefix_bind_arguments: "prefix (reporter c) (reporter (bind_arguments c args))"
  by (rule prefix_bind_arguments') simp

lemma prefix_for_topdecl:
  "for_topdecl c d = Inr (d', c') \<Longrightarrow> prefix (reporter c) (reporter c')"
proof (cases d)
  case (GlobVarDecl pos n init t)
  assume "for_topdecl c d = Inr (d', c')"
  with GlobVarDecl show ?thesis
    by (auto split: sum.splits prod.splits if_splits
        intro: prefix_for_expression prefix_report)
next
  case (ProcDecl pos n args retty body)
  assume a: "for_topdecl c d = Inr (d', c')"
  let ?c1 = "c\<lparr>proc := Some (ProcDecl pos n args retty body), scope := scope_open (scope c)\<rparr>"
  have p1: "prefix (reporter c) (reporter (bind_arguments ?c1 args))"
    using prefix_bind_arguments [of ?c1 args] by simp
  from a ProcDecl obtain body' c3 where
    b: "for_statement (bind_arguments ?c1 args) body = Inr (body', c3)"
    and c': "reporter c' = reporter c3 \<or> reporter c' = reporter (report c3 ''this function is missing a return statement'' pos)"
    by (auto simp: Let_def split: sum.splits prod.splits if_splits)
  from prefix_for_statement(1) [OF b] p1 have "prefix (reporter c) (reporter c3)"
    by (rule prefix_order.trans [rotated])
  with c' show ?thesis by (auto intro: prefix_report)
next
  case (TypedefDecl pos n t)
  assume "for_topdecl c d = Inr (d', c')"
  with TypedefDecl show ?thesis by auto
qed

lemma prefix_for_program:
  "for_program c p = Inr (p', c') \<Longrightarrow> prefix (reporter c) (reporter c')"
proof (induction c p arbitrary: p' c' rule: for_program.induct)
  case (2 c decl prgm)
  then show ?case
    by (fastforce split: sum.splits prod.splits dest: prefix_for_topdecl prefix_order.trans)
qed simp

lemma prefix_pretype_loop:
  "pretype_loop s ps r p = Inr (s', ps', r') \<Longrightarrow> prefix r r'"
proof (induction s ps r p arbitrary: s' ps' r' rule: pretype_loop.induct)
  case (2 scope procs r pos name arguments rettype body prgm)
  then show ?case
    by (fastforce simp: reporter_call_def split: if_splits dest: append_prefixD)
next
  case (3 scope procs r pos name init type_v prgm)
  then show ?case
    by (fastforce simp: reporter_call_def split: if_splits dest: append_prefixD)
qed auto

lemma prefix_pretype: "pretype r p = Inr (s', ps', r') \<Longrightarrow> prefix r r'"
  by (auto simp: pretype_def reporter_call_def split: sum.splits prod.splits if_splits
      dest!: prefix_pretype_loop intro: prefix_order.trans)

text \<open>The two argument loops are \<open>for_each\<close> on the paired expectations.\<close>

lemma for_opargs_for_each:
  "for_opargs c ats as =
     (case for_each c (zip (map Some ats) as) of
        Inl e \<Rightarrow> Inl e
      | Inr (as', c') \<Rightarrow> Inr (as' @ drop (length ats) as, c'))"
proof (induction ats arbitrary: c as)
  case Nil
  then show ?case by simp
next
  case (Cons t ats)
  show ?case
  proof (cases as)
    case Nil
    then show ?thesis by simp
  next
    case (Cons a as2)
    then show ?thesis
      by (simp add: Cons.IH split: sum.splits prod.splits)
  qed
qed

lemma for_callargs_for_each:
  "for_callargs c ats i as =
     for_each c (zip (map Some (drop i ats) @ replicate (length as - (length ats - i)) None) as)"
proof (induction as arbitrary: c i)
  case Nil
  then show ?case by simp
next
  case (Cons a as)
  show ?case
  proof (cases "i < length ats")
    case True
    then have d: "drop i ats = ats ! i # drop (Suc i) ats"
      by (simp add: Cons_nth_drop_Suc)
    from True have l: "length (a # as) - (length ats - i) = length as - (length ats - Suc i)"
      by simp
    show ?thesis
      unfolding l by (simp add: d True Cons.IH split: sum.splits prod.splits)
  next
    case False
    then show ?thesis
      by (simp add: Cons.IH split: sum.splits prod.splits)
  qed
qed

section \<open>Integer literals\<close>

text \<open>
  C7. An integer literal is always typed \<open>int\<close>: the slot of the returned node is
  \<open>INT_ty\<close> whatever the value. The range diagnostic is recorded exactly when the
  value lies outside \<open>[-2^63, 2^63-1]\<close>, and it is the only diagnostic of the literal
  itself: when no type is expected, or \<open>int\<close> is, a value in the range records
  nothing. The comparison with another expected type adds its mismatch after it.
\<close>

theorem int_literal_range:
  "for_expression c (IntExpression pos slot v) etype =
     Inr (IntExpression pos (Some INT_ty) v,
          c\<lparr>reporter := reporter c
             @ (if - (2 ^ 63) \<le> v \<and> v \<le> 2 ^ 63 - 1 then []
                else [(''integer literal out of range: '' @ str_int v, None)])
             @ (case etype of
                  None \<Rightarrow> []
                | Some et \<Rightarrow>
                    if et = INT_ty then []
                    else [(''invalid type: get int, expected '' @ str_ty et, pos)])\<rparr>)"
  by (simp add: check_integer_constant_range_def check_etype_def report_def
      reporter_call_def split: option.splits)

text \<open>
  The four literals around the bounds: \<open>2^63-1\<close> and \<open>-2^63\<close> record nothing,
  \<open>2^63\<close> and \<open>-2^63-1\<close> record the range diagnostic, and all four are typed
  \<open>int\<close>.
\<close>

theorem int_literal_range_witness:
  "for_expression (TypeChecker scope_new [] [])
       (IntExpression None None 9223372036854775807) None
     = Inr (IntExpression None (Some INT_ty) 9223372036854775807,
            TypeChecker scope_new [] [])
   \<and> for_expression (TypeChecker scope_new [] [])
       (IntExpression None None (- 9223372036854775808)) None
     = Inr (IntExpression None (Some INT_ty) (- 9223372036854775808),
            TypeChecker scope_new [] [])
   \<and> for_expression (TypeChecker scope_new [] [])
       (IntExpression None None 9223372036854775808) None
     = Inr (IntExpression None (Some INT_ty) 9223372036854775808,
            TypeChecker scope_new []
              [(''integer literal out of range: 9223372036854775808'', None)])
   \<and> for_expression (TypeChecker scope_new [] [])
       (IntExpression None None (- 9223372036854775809)) None
     = Inr (IntExpression None (Some INT_ty) (- 9223372036854775809),
            TypeChecker scope_new []
              [(''integer literal out of range: -9223372036854775809'', None)])"
  using int_literal_range [of "TypeChecker scope_new [] []" None None 9223372036854775807 None]
    int_literal_range [of "TypeChecker scope_new [] []" None None "- 9223372036854775808" None]
    int_literal_range [of "TypeChecker scope_new [] []" None None 9223372036854775808 None]
    int_literal_range [of "TypeChecker scope_new [] []" None None "- 9223372036854775809" None]
  by (simp add: TypeChecker_def str_int_def str_nat.simps)

section \<open>The driver\<close>

text \<open>
  C1. Whenever \<open>check\<close> returns, it has run \<open>pretype\<close> on the program and then
  the \<open>TypeChecker\<close> built from the scope, the signatures and the reporter that
  \<open>pretype\<close> left, all after taking one checkpoint; the reporter it leaves is the one
  it was given followed by the diagnostics \<open>ds\<close> of the session, and its result is
  true if and only if \<open>ds\<close> is empty, whatever rule recorded a diagnostic.
\<close>

theorem check_true_iff_no_diagnostic:
  assumes "check prgm r = Inr (ok, prgm', r')"
  shows "(\<exists>scope_v procs_v r1 c.
            pretype r prgm = Inr (scope_v, procs_v, r1)
          \<and> for_program (TypeChecker scope_v procs_v r1) prgm = Inr (prgm', c)
          \<and> reporter c = r')
       \<and> (\<exists>ds. r' = r @ ds \<and> (ok \<longleftrightarrow> ds = []))"
proof -
  from assms obtain scope_v procs_v r1 c where
    p: "pretype r prgm = Inr (scope_v, procs_v, r1)"
    and t: "for_program (TypeChecker scope_v procs_v r1) prgm = Inr (prgm', c)"
    and r': "reporter c = r'" and ok: "ok = checkpoint_bool (checkpoint r) r'"
    by (auto simp: check_def TypeChecker_check_def Let_def split: sum.splits prod.splits)
  from prefix_pretype [OF p] have "prefix r r1" .
  moreover from prefix_for_program [OF t] have "prefix r1 r'"
    by (simp add: TypeChecker_def r')
  ultimately have "prefix r r'" by (rule prefix_order.trans)
  then obtain ds where ds: "r' = r @ ds" by (auto simp: prefix_def)
  with ok have "ok \<longleftrightarrow> ds = []" by (simp add: checkpoint_def checkpoint_bool_def)
  with p t r' ds show ?thesis by blast
qed

text \<open>
  The procedure \<open>main\<close> with an empty body is accepted: nothing is recorded and the
  result is true. The empty program has no \<open>main\<close>: one diagnostic is recorded and
  the result is false.
\<close>

theorem check_true_iff_no_diagnostic_witness:
  "check [ProcDecl None (Name None ''main'') [] None (BlockStatement None [])] []
     = Inr (True, [ProcDecl None (Name None ''main'') [] None (BlockStatement None [])], [])
   \<and> (\<exists>ds. [] = ([] :: reporter) @ ds \<and> (True \<longleftrightarrow> ds = []))
   \<and> check [] [] = Inr (False, [], [(''this program is missing a main subroutine'', None)])
   \<and> (\<exists>ds. [(''this program is missing a main subroutine'', None)] = ([] :: reporter) @ ds
          \<and> (False \<longleftrightarrow> ds = []))"
proof -
  have h1: "check [ProcDecl None (Name None ''main'') [] None (BlockStatement None [])] []
     = Inr (True, [ProcDecl None (Name None ''main'') [] None (BlockStatement None [])], [])"
    by (simp add: eval_defs)
  have h2: "check [] [] = Inr (False, [], [(''this program is missing a main subroutine'', None)])"
    by (simp add: eval_defs)
  from check_true_iff_no_diagnostic [OF h1] check_true_iff_no_diagnostic [OF h2] h1 h2
  show ?thesis by blast
qed

section \<open>Guaranteed return\<close>

text \<open>
  C5. \<open>has_return\<close> holds of every \<open>return\<close> statement; of an \<open>if\<close> exactly
  when the \<open>else\<close> branch is present and it holds of both branches; of a block
  exactly when it holds of some statement of the block; and of no other kind of
  statement. When \<open>for_topdecl\<close> returns from a procedure, it has checked the body
  under the bound parameters, and the diagnostic of the missing return, at the position
  of the declaration, follows the diagnostics of the body exactly when the procedure
  declares a return type and \<open>has_return\<close> fails on its body.
\<close>

theorem has_return_rule:
  "has_return (ReturnStatement pos e)
   \<and> (has_return (IfStatement pos cnd iftrue iffalse)
        \<longleftrightarrow> (\<exists>s. iffalse = Some s \<and> has_return iftrue \<and> has_return s))
   \<and> (has_return (BlockStatement pos block) \<longleftrightarrow> (\<exists>s \<in> set block. has_return s))
   \<and> \<not> has_return (VarDeclStatement pos n init t)
   \<and> \<not> has_return (AssignStatement pos lhs rhs)
   \<and> \<not> has_return (ExprStatement pos ex)
   \<and> \<not> has_return (PrintStatement pos ex)
   \<and> \<not> has_return (WhileStatement pos cnd body)
   \<and> \<not> has_return (BreakStatement pos)
   \<and> \<not> has_return (ContinueStatement pos)
   \<and> (for_topdecl c (ProcDecl dpos dname arguments retty pbody) = Inr (d', c') \<longrightarrow>
        (\<exists>body' c3.
           for_statement
             (bind_arguments
                (c\<lparr>proc := Some (ProcDecl dpos dname arguments retty pbody),
                    scope := scope_open (scope c)\<rparr>) arguments) pbody = Inr (body', c3)
         \<and> d' = ProcDecl dpos dname arguments retty body'
         \<and> reporter c' = reporter c3 @
             (if retty \<noteq> None \<and> \<not> has_return pbody
              then [(''this function is missing a return statement'', dpos)] else [])))"
proof -
  have "for_topdecl c (ProcDecl dpos dname arguments retty pbody) = Inr (d', c') \<Longrightarrow>
        (\<exists>body' c3.
           for_statement
             (bind_arguments
                (c\<lparr>proc := Some (ProcDecl dpos dname arguments retty pbody),
                    scope := scope_open (scope c)\<rparr>) arguments) pbody = Inr (body', c3)
         \<and> d' = ProcDecl dpos dname arguments retty body'
         \<and> reporter c' = reporter c3 @
             (if retty \<noteq> None \<and> \<not> has_return pbody
              then [(''this function is missing a return statement'', dpos)] else []))"
    by (auto simp: Let_def report_def reporter_call_def has_return_for_statement(1)
        split: sum.splits prod.splits if_splits)
  then show ?thesis
    by (auto simp: list_ex_iff split: option.splits)
qed

text \<open>
  A function whose body is an \<open>if\<close> without \<open>else\<close> is reported, though its
  only branch returns; a block is enough when one of its statements is an \<open>if\<close>
  whose two branches return.
\<close>

theorem has_return_rule_witness:
  "for_topdecl (TypeChecker scope_new [] [])
     (ProcDecl None (Name None ''f'') [] (Some INT_ty)
        (IfStatement None (BoolExpression None None True)
           (ReturnStatement None (Some (IntExpression None None 1))) None))
   = Inr (ProcDecl None (Name None ''f'') [] (Some INT_ty)
        (IfStatement None (BoolExpression None (Some BOOL) True)
           (ReturnStatement None (Some (IntExpression None None 1))) None),
      TypeChecker scope_new [] [(''this function is missing a return statement'', None)])
   \<and> \<not> has_return (IfStatement None (BoolExpression None None True)
           (ReturnStatement None (Some (IntExpression None None 1))) None)
   \<and> has_return (BlockStatement None [BreakStatement None,
         IfStatement None (BoolExpression None None True)
           (ReturnStatement None None) (Some (ReturnStatement None None))])"
  using has_return_rule [where c = "TypeChecker scope_new [] []" and dpos = None
      and c' = "TypeChecker scope_new [] [(''this function is missing a return statement'', None)]"
      and d' = "ProcDecl None (Name None ''f'') [] (Some INT_ty)
        (IfStatement None (BoolExpression None (Some BOOL) True)
           (ReturnStatement None (Some (IntExpression None None 1))) None)"
      and dname = "Name None ''f''" and arguments = "[]" and retty = "Some INT_ty"
      and pbody = "IfStatement None (BoolExpression None None True)
           (ReturnStatement None (Some (IntExpression None None 1))) None"
      and pos = None and cnd = "BoolExpression None None True"
      and iftrue = "ReturnStatement None (Some (IntExpression None None 1))"
      and iffalse = None
      and block = "[BreakStatement None,
         IfStatement None (BoolExpression None None True)
           (ReturnStatement None None) (Some (ReturnStatement None None))]"]
  by (simp add: eval_defs)

section \<open>Procedure calls\<close>

text \<open>
  C6. A call of a name that is not in the signature table records the
  unknown-procedure diagnostic and then checks every argument, from left to right,
  with no expected type; its slot stays unset. A call of a known name records, when
  the number of arguments differs from the number of declared parameters, the
  diagnostic that gives both numbers, then checks the arguments from left to right,
  each within the declared arity against the parameter type of its position and each
  beyond it with no expected type; its inferred type is the return type of the
  signature.
\<close>

theorem call_expression:
  "(map_of (procs c) (name_value name) = None \<longrightarrow>
      for_expression c (CallExpression pos slot name arguments) etype =
        (case for_each (report c (''unknown procedure: '' @ name_value name) (name_position name))
                (zip (replicate (length arguments) None) arguments) of
           Inl e \<Rightarrow> Inl e
         | Inr (arguments', c') \<Rightarrow> Inr (CallExpression pos None name arguments', c')))
   \<and> (map_of (procs c) (name_value name) = Some (atypes, retty) \<longrightarrow>
      for_expression c (CallExpression pos slot name arguments) etype =
        (case for_each
                (if length atypes \<noteq> length arguments
                 then report c
                        (''invalid number of arguments: expected '' @
                         str_int (int (length atypes)) @ '', got '' @
                         str_int (int (length arguments))) pos
                 else c)
                (zip (map Some atypes @ replicate (length arguments - length atypes) None)
                   arguments) of
           Inl e \<Rightarrow> Inl e
         | Inr (arguments', c') \<Rightarrow>
             Inr (CallExpression pos (Some retty) name arguments',
                  check_etype c' pos (Some retty) etype)))"
  by (auto simp: for_callargs_for_each check_etype_def split: sum.splits prod.splits)

text \<open>
  A procedure of two \<open>int\<close> parameters called with one argument: "expected 2, got
  1". A procedure of one \<open>int\<close> parameter called with two booleans: the count is
  reported, the first argument is compared with \<open>int\<close>, the second is checked
  unconstrained. A call of an unknown procedure: its argument is still typed, and the
  expected type of the call is compared with nothing.
\<close>

theorem call_expression_witness:
  "for_expression (TypeChecker scope_new [(''f'', ([INT_ty, INT_ty], VOID))] [])
     (CallExpression None None (Name None ''f'') [IntExpression None None 1]) None
   = Inr (CallExpression None (Some VOID) (Name None ''f'') [IntExpression None (Some INT_ty) 1],
          TypeChecker scope_new [(''f'', ([INT_ty, INT_ty], VOID))]
            [(''invalid number of arguments: expected 2, got 1'', None)])
   \<and> for_expression (TypeChecker scope_new [(''f'', ([INT_ty], BOOL))] [])
     (CallExpression None None (Name None ''f'')
        [BoolExpression None None True, BoolExpression None None True]) None
   = Inr (CallExpression None (Some BOOL) (Name None ''f'')
            [BoolExpression None (Some BOOL) True, BoolExpression None (Some BOOL) True],
          TypeChecker scope_new [(''f'', ([INT_ty], BOOL))]
            [(''invalid number of arguments: expected 1, got 2'', None),
             (''invalid type: get bool, expected int'', None)])
   \<and> for_expression (TypeChecker scope_new [] [])
     (CallExpression None None (Name None ''g'') [BoolExpression None None True]) (Some INT_ty)
   = Inr (CallExpression None None (Name None ''g'') [BoolExpression None (Some BOOL) True],
          TypeChecker scope_new [] [(''unknown procedure: g'', None)])"
  using call_expression [where c = "TypeChecker scope_new [(''f'', ([INT_ty, INT_ty], VOID))] []"
      and name = "Name None ''f''" and pos = None and slot = None
      and arguments = "[IntExpression None None 1]" and etype = None
      and atypes = "[INT_ty, INT_ty]" and retty = VOID]
    call_expression [where c = "TypeChecker scope_new [(''f'', ([INT_ty], BOOL))] []"
      and name = "Name None ''f''" and pos = None and slot = None
      and arguments = "[BoolExpression None None True, BoolExpression None None True]"
      and etype = None and atypes = "[INT_ty]" and retty = BOOL]
    call_expression [where c = "TypeChecker scope_new [] []"
      and name = "Name None ''g''" and pos = None and slot = None
      and arguments = "[BoolExpression None None True]" and etype = "Some INT_ty"]
  by (simp add: eval_defs str_int_def str_nat.simps)

section \<open>Operator applications\<close>

text \<open>
  C10. An operator application checks the arguments that \<open>zip\<close> pairs with the
  parameter types of the operator, and only those: the arguments beyond the arity come
  back as they were given, slots included, and the checker after the application is
  the checker after those paired checks, followed by the comparison of the result type
  with the expected type. No step of it compares the number of arguments with the
  arity, so no diagnostic about the number of arguments comes from the application
  itself.
\<close>

theorem opapp_extra_arguments:
  "map_of SIGS opname = Some (atypes, rty) \<Longrightarrow>
   for_expression c (OpAppExpression pos slot opname arguments) etype =
     (case for_each c (zip (map Some atypes) arguments) of
        Inl e \<Rightarrow> Inl e
      | Inr (checked, c') \<Rightarrow>
          Inr (OpAppExpression pos (Some rty) opname
                 (checked @ drop (length atypes) arguments),
               check_etype c' pos (Some rty) etype))"
  by (simp add: for_opargs_for_each split: sum.splits prod.splits)

text \<open>
  The unary \<open>opposite\<close> applied to three arguments: the first is typed, the boolean
  and the unbound variable after it are neither typed nor reported, and nothing is
  recorded.
\<close>

theorem opapp_extra_arguments_witness:
  "map_of SIGS ''opposite'' = Some ([INT_ty], INT_ty)
   \<and> for_expression (TypeChecker scope_new [] [])
       (OpAppExpression None None ''opposite''
          [IntExpression None None 1, BoolExpression None None True,
           VarExpression None None (Name None ''x'')]) None
   = Inr (OpAppExpression None (Some INT_ty) ''opposite''
          [IntExpression None (Some INT_ty) 1, BoolExpression None None True,
           VarExpression None None (Name None ''x'')],
          TypeChecker scope_new [] [])"
proof -
  have h: "map_of SIGS ''opposite'' = Some ([INT_ty], INT_ty)"
    by (simp add: SIGS_def)
  from opapp_extra_arguments [OF h, of "TypeChecker scope_new [] []" None None
      "[IntExpression None None 1, BoolExpression None None True,
           VarExpression None None (Name None ''x'')]" None] h
  show ?thesis by (simp add: eval_defs)
qed

section \<open>The expected type\<close>

text \<open>
  Checking an expression against an expected type is checking it with none, followed
  by one comparison: a written slot that differs from the expected type is reported
  and kept, an unset slot is compared with nothing.
\<close>

lemma expected_type_step:
  "for_expression c e (Some et) =
     (case for_expression c e None of
        Inl err \<Rightarrow> Inl err
      | Inr (e', c') \<Rightarrow>
          Inr (e',
               case type_slot e' of
                 None \<Rightarrow> c'
               | Some t \<Rightarrow>
                   if t \<noteq> et
                   then report c' (''invalid type: get '' @ str_ty t @ '', expected '' @ str_ty et)
                          (expr_position e)
                   else c'))"
  by (cases e)
     (auto simp: check_etype_def Let_def split: sum.splits prod.splits option.splits)

text \<open>
  The slot is left unset by a variable that does not resolve and by a call of an
  unknown procedure, whatever type is expected, and nothing is compared with it.
\<close>

lemma unresolved_variable_slot_unset:
  "\<not> scope_contains (scope c) (name_value n) \<Longrightarrow>
   for_expression c (VarExpression pos slot n) etype =
     Inr (VarExpression pos None n,
          report c (''missing variable declaration for '' @ name_value n)
            (name_position n))"
  by (simp add: check_local_bound_def check_etype_def)

lemma unknown_procedure_slot_unset:
  "map_of (procs c) (name_value n) = None \<Longrightarrow>
   for_expression c (CallExpression pos slot n arguments) etype = Inr (e', c') \<Longrightarrow>
   type_slot e' = None
   \<and> for_expression c (CallExpression pos slot n arguments) None = Inr (e', c')"
  by (auto simp: check_etype_def split: sum.splits prod.splits)

section \<open>Local declarations\<close>

text \<open>
  C9. A local declaration tests the name with \<open>islocal\<close>, that is, in the innermost
  frame only. When the name is bound there, the duplicate diagnostic is recorded and
  the scope is left as it was, also after the initializer has been checked. Otherwise,
  whatever the enclosing frames bind, nothing is recorded for the declaration, the name
  is bound to the declared type in the innermost frame, the enclosing frames are
  unchanged, and the initializer is checked against the declared type under that
  binding.
\<close>

theorem local_declaration:
  "for_statement c (VarDeclStatement pos n init t) =
     (case for_expression
             (if scope_islocal (scope c) (name_value n)
              then report c (''duplicated variable declaration for '' @ name_value n) None
              else c\<lparr>scope := scope_push (scope c) (name_value n) t\<rparr>)
             init (Some t) of
        Inl e \<Rightarrow> Inl e
      | Inr (init', c') \<Rightarrow> Inr (VarDeclStatement pos n init' t, c'))
   \<and> (scope_islocal (scope c) (name_value n) \<longleftrightarrow> map_of (innermost (scope c)) (name_value n) \<noteq> None)
   \<and> (\<forall>s' c'. for_statement c (VarDeclStatement pos n init t) = Inr (s', c') \<longrightarrow>
        (if scope_islocal (scope c) (name_value n)
         then scope c' = scope c
            \<and> (\<exists>ds. reporter c' = reporter c
                   @ (''duplicated variable declaration for '' @ name_value n, None) # ds)
         else scope c' = scope_push (scope c) (name_value n) t
            \<and> map_of (innermost (scope c')) (name_value n) = Some t
            \<and> enclosing (scope c') = enclosing (scope c)
            \<and> (\<exists>init'. for_expression (c\<lparr>scope := scope_push (scope c) (name_value n) t\<rparr>)
                           init (Some t) = Inr (init', c'))))"
proof -
  have eq: "for_statement c (VarDeclStatement pos n init t) =
     (case for_expression
             (if scope_islocal (scope c) (name_value n)
              then report c (''duplicated variable declaration for '' @ name_value n) None
              else c\<lparr>scope := scope_push (scope c) (name_value n) t\<rparr>)
             init (Some t) of
        Inl e \<Rightarrow> Inl e
      | Inr (init', c') \<Rightarrow> Inr (VarDeclStatement pos n init' t, c'))"
    by (simp add: check_local_free_def Let_def)
  have loc: "scope_islocal (scope c) (name_value n) \<longleftrightarrow>
      map_of (innermost (scope c)) (name_value n) \<noteq> None"
    by (cases "scope c") simp
  have dup: "scope c' = scope c
            \<and> (\<exists>ds. reporter c' = reporter c
                   @ (''duplicated variable declaration for '' @ name_value n, None) # ds)"
    if "scope_islocal (scope c) (name_value n)"
      and "for_statement c (VarDeclStatement pos n init t) = Inr (s', c')" for s' c'
  proof -
    from that eq obtain init' where
      "for_expression (report c (''duplicated variable declaration for '' @ name_value n) None)
         init (Some t) = Inr (init', c')"
      by (auto split: sum.splits prod.splits)
    from extends_for_expression(1) [OF this] show ?thesis
      by (auto simp: extends_def report_def reporter_call_def)
  qed
  have acc: "scope c' = scope_push (scope c) (name_value n) t
            \<and> map_of (innermost (scope c')) (name_value n) = Some t
            \<and> enclosing (scope c') = enclosing (scope c)
            \<and> (\<exists>init'. for_expression (c\<lparr>scope := scope_push (scope c) (name_value n) t\<rparr>)
                           init (Some t) = Inr (init', c'))"
    if "\<not> scope_islocal (scope c) (name_value n)"
      and "for_statement c (VarDeclStatement pos n init t) = Inr (s', c')" for s' c'
  proof -
    from that eq obtain init' where
      i: "for_expression (c\<lparr>scope := scope_push (scope c) (name_value n) t\<rparr>)
         init (Some t) = Inr (init', c')"
      by (auto split: sum.splits prod.splits)
    from extends_for_expression(1) [OF i]
    have "scope c' = scope_push (scope c) (name_value n) t"
      by (auto simp: extends_def)
    with i show ?thesis by (cases "scope c") auto
  qed
  have both: "\<forall>s' c'. for_statement c (VarDeclStatement pos n init t) = Inr (s', c') \<longrightarrow>
        (if scope_islocal (scope c) (name_value n)
         then scope c' = scope c
            \<and> (\<exists>ds. reporter c' = reporter c
                   @ (''duplicated variable declaration for '' @ name_value n, None) # ds)
         else scope c' = scope_push (scope c) (name_value n) t
            \<and> map_of (innermost (scope c')) (name_value n) = Some t
            \<and> enclosing (scope c') = enclosing (scope c)
            \<and> (\<exists>init'. for_expression (c\<lparr>scope := scope_push (scope c) (name_value n) t\<rparr>)
                           init (Some t) = Inr (init', c')))"
  proof (intro allI impI)
    fix s' c'
    assume r: "for_statement c (VarDeclStatement pos n init t) = Inr (s', c')"
    show "if scope_islocal (scope c) (name_value n)
         then scope c' = scope c
            \<and> (\<exists>ds. reporter c' = reporter c
                   @ (''duplicated variable declaration for '' @ name_value n, None) # ds)
         else scope c' = scope_push (scope c) (name_value n) t
            \<and> map_of (innermost (scope c')) (name_value n) = Some t
            \<and> enclosing (scope c') = enclosing (scope c)
            \<and> (\<exists>init'. for_expression (c\<lparr>scope := scope_push (scope c) (name_value n) t\<rparr>)
                           init (Some t) = Inr (init', c'))"
    proof (cases "scope_islocal (scope c) (name_value n)")
      case True
      from dup [OF True r] show ?thesis unfolding if_P [OF True] .
    next
      case False
      from acc [OF False r] show ?thesis unfolding if_not_P [OF False] .
    qed
  qed
  show ?thesis
    by (rule conjI [OF eq conjI [OF loc both]])
qed

text \<open>
  \<open>x\<close> bound in an enclosing frame only: the declaration is accepted and shadows it.
  \<open>x\<close> bound in the innermost frame: the declaration is reported and the frame
  keeps the earlier binding.
\<close>

theorem local_declaration_witness:
  "for_statement
     (TypeChecker (Scope [] [[(''x'', BOOL)]]) [] [])
     (VarDeclStatement None (Name None ''x'') (IntExpression None None 1) INT_ty)
   = Inr (VarDeclStatement None (Name None ''x'') (IntExpression None (Some INT_ty) 1) INT_ty,
          TypeChecker (Scope [(''x'', INT_ty)] [[(''x'', BOOL)]]) [] [])
   \<and> for_statement
     (TypeChecker (Scope [(''x'', BOOL)] []) [] [])
     (VarDeclStatement None (Name None ''x'') (IntExpression None None 1) INT_ty)
   = Inr (VarDeclStatement None (Name None ''x'') (IntExpression None (Some INT_ty) 1) INT_ty,
          TypeChecker (Scope [(''x'', BOOL)] []) []
            [(''duplicated variable declaration for x'', None)])
   \<and> scope (TypeChecker (Scope [(''x'', BOOL)] []) []
            [(''duplicated variable declaration for x'', None)])
     = scope (TypeChecker (Scope [(''x'', BOOL)] []) [] [])"
proof -
  note a = local_declaration [where c = "TypeChecker (Scope [] [[(''x'', BOOL)]]) [] []"
      and pos = None and n = "Name None ''x''" and init = "IntExpression None None 1"
      and t = INT_ty, THEN conjunct1]
  note b = local_declaration [where c = "TypeChecker (Scope [(''x'', BOOL)] []) [] []"
      and pos = None and n = "Name None ''x''" and init = "IntExpression None None 1"
      and t = INT_ty, THEN conjunct1]
  have 1: "for_statement
     (TypeChecker (Scope [] [[(''x'', BOOL)]]) [] [])
     (VarDeclStatement None (Name None ''x'') (IntExpression None None 1) INT_ty)
   = Inr (VarDeclStatement None (Name None ''x'') (IntExpression None (Some INT_ty) 1) INT_ty,
          TypeChecker (Scope [(''x'', INT_ty)] [[(''x'', BOOL)]]) [] [])"
    unfolding a by (simp add: eval_defs)
  have 2: "for_statement
     (TypeChecker (Scope [(''x'', BOOL)] []) [] [])
     (VarDeclStatement None (Name None ''x'') (IntExpression None None 1) INT_ty)
   = Inr (VarDeclStatement None (Name None ''x'') (IntExpression None (Some INT_ty) 1) INT_ty,
          TypeChecker (Scope [(''x'', BOOL)] []) []
            [(''duplicated variable declaration for x'', None)])"
    unfolding b by (simp add: eval_defs)
  have l: "scope_islocal (scope (TypeChecker (Scope [(''x'', BOOL)] []) [] []))
      (name_value (Name None ''x''))"
    by (simp add: eval_defs)
  note c = local_declaration [where c = "TypeChecker (Scope [(''x'', BOOL)] []) [] []"
      and pos = None and n = "Name None ''x''" and init = "IntExpression None None 1"
      and t = INT_ty, THEN conjunct2, THEN conjunct2, rule_format, OF 2]
  from c have 3: "scope (TypeChecker (Scope [(''x'', BOOL)] []) []
            [(''duplicated variable declaration for x'', None)])
     = scope (TypeChecker (Scope [(''x'', BOOL)] []) [] [])"
    unfolding if_P [OF l] by (rule conjunct1)
  from 1 2 3 show ?thesis by (intro conjI)
qed

section \<open>Statements of the specification that the code does not meet\<close>

text \<open>
  C2. The code at the failing inputs. A function declared to return \<open>int\<close> whose
  body returns the boolean literal: \<open>check\<close> accepts the program, records nothing
  and leaves the literal without a type, since the branch of a \<open>return\<close> with a value
  never visits the value. The same function with a \<open>return\<close> without a value: the
  branch reads \<open>self.proc.retty\<close> and the check ends in \<open>AttributeError\<close> instead
  of returning with the diagnostic recorded.
\<close>

theorem return_value_unchecked:
  "check
     [ProcDecl None (Name None ''f'') [] (Some INT_ty)
        (ReturnStatement None (Some (BoolExpression None None True))),
      ProcDecl None (Name None ''main'') [] None (BlockStatement None [])] []
   = Inr (True,
       [ProcDecl None (Name None ''f'') [] (Some INT_ty)
          (ReturnStatement None (Some (BoolExpression None None True))),
        ProcDecl None (Name None ''main'') [] None (BlockStatement None [])], [])
   \<and> check
     [ProcDecl None (Name None ''f'') [] (Some INT_ty) (ReturnStatement None None),
      ProcDecl None (Name None ''main'') [] None (BlockStatement None [])] []
   = Inl AttributeError"
  by (simp add: eval_defs)

text \<open>
  C3. The code at the failing inputs. A \<open>return\<close> without a value in the procedure
  \<open>main\<close>, which declares no return type, ends the check in \<open>AttributeError\<close>;
  a null literal and an address-of expression fall to the \<open>case _\<close> of
  \<open>for_expression\<close> and fail its assertion.
\<close>

theorem unhandled_nodes_raise:
  "check [ProcDecl None (Name None ''main'') [] None (ReturnStatement None None)] []
     = Inl AttributeError
   \<and> check [ProcDecl None (Name None ''main'') [] None
        (ExprStatement None (NullExpression None None))] []
     = Inl AssertionError
   \<and> check [ProcDecl None (Name None ''main'') [] None
        (ExprStatement None (RefExpression None None (VarAssignable None None (Name None ''x''))))] []
     = Inl AssertionError
   \<and> for_expression (TypeChecker scope_new [] []) (NullExpression None None) None
     = Inl AssertionError"
  by (simp add: eval_defs)

text \<open>
  C4. The code at the failing input. The table gives \<open>bitwise-negation\<close> a
  \<open>bool\<close> operand and a \<open>bool\<close> result: applied to an integer literal where an
  \<open>int\<close> is expected, it reports the operand and the result. The other twenty
  entries are as the specification says.
\<close>

theorem bitwise_negation_signature:
  "map_of SIGS ''bitwise-negation'' = Some ([BOOL], BOOL)
   \<and> for_expression (TypeChecker scope_new [] [])
       (OpAppExpression None None ''bitwise-negation'' [IntExpression None None 1])
       (Some INT_ty)
     = Inr (OpAppExpression None (Some BOOL) ''bitwise-negation''
              [IntExpression None (Some INT_ty) 1],
            TypeChecker scope_new []
              [(''invalid type: get int, expected bool'', None),
               (''invalid type: get bool, expected int'', None)])"
  by (simp add: eval_defs)

lemma sigs_other_entries:
  "list_all (\<lambda>op. \<exists>ats. map_of SIGS op = Some (ats, INT_ty) \<and> set ats = {INT_ty})
     [''opposite'', ''addition'', ''subtraction'', ''multiplication'', ''division'',
      ''modulus'', ''logical-right-shift'', ''logical-left-shift'', ''bitwise-and'',
      ''bitwise-or'', ''bitwise-xor'']
   \<and> list_all (\<lambda>op. \<exists>ats. map_of SIGS op = Some (ats, BOOL) \<and> set ats = {BOOL})
     [''boolean-not'', ''boolean-and'', ''boolean-or'']
   \<and> list_all (\<lambda>op. \<exists>ats. map_of SIGS op = Some (ats, BOOL) \<and> set ats = {INT_ty})
     [''cmp-equal'', ''cmp-not-equal'', ''cmp-lower-than'', ''cmp-lower-or-equal-than'',
      ''cmp-greater-than'', ''cmp-greater-or-equal-than'']
   \<and> length SIGS = 21"
  by (simp add: SIGS_def)

text \<open>
  C8. The code at the failing inputs. The dereference of a boolean literal and the
  indexing of a boolean literal, each checked against the expected type \<open>int\<close>: the
  operand is checked, and the test that follows reads \<open>Type.POINTER_INT\<close>
  (indexing: the argument \<open>Type.INT\<close> of the check of the index), so the check ends
  in \<open>AttributeError\<close> before the report of the branch, the common tail and the
  write of the slot; nothing returns in which a slot is left unset and a comparison is
  skipped. The same holds inside a program given to \<open>check\<close>. For the other
  expressions the common tail does what the specification says
  (\<open>expected_type_step\<close>, \<open>unresolved_variable_slot_unset\<close>,
  \<open>unknown_procedure_slot_unset\<close>).
\<close>

theorem dereference_and_index_raise:
  "for_expression (TypeChecker scope_new [] [])
     (DereferenceExpression None None (BoolExpression None None True)) (Some INT_ty)
     = Inl AttributeError
   \<and> for_expression (TypeChecker scope_new [] [])
     (IndexExpression None None (BoolExpression None None True) (IntExpression None None 0))
     (Some INT_ty)
     = Inl AttributeError
   \<and> check [ProcDecl None (Name None ''main'') [] None
        (ExprStatement None
           (DereferenceExpression None None (BoolExpression None None True)))] []
     = Inl AttributeError
   \<and> check [ProcDecl None (Name None ''main'') [] None
        (ExprStatement None
           (IndexExpression None None (BoolExpression None None True)
              (IntExpression None None 0)))] []
     = Inl AttributeError"
  by (simp add: eval_defs)

end
